theory Spec2Isabelle
  imports Main "HOL-Library.Word"
begin

section \<open>Values shared by the commands\<close>

type_synonym byte = "8 word"
type_synonym bytes = "byte list"
type_synonym uint64 = "64 word"

text \<open>
  Every failure of the commands is a Go \<open>error\<close> handed to \<open>re.SetError\<close>. The errors
  the two source files build themselves are constructors named after their messages;
  \<open>Collaborator\<close> stands for an error returned by code outside the two files (node
  construction, path resolution, identifier decoding, the block store).
\<close>

datatype error =
    Zero_length_cid_invalid
  | Unrecognized_format string
  | Unrecognized_multihash_function string
  | Invalid_content_id string error
  | Invalid_cid_version
  | UnsupportedCodec
  | UnsupportedHashFunction
  | InvalidHashLength
  | NotFound
  | StreamClosed
  | EOF
  | Index_out_of_range
  | Collaborator string

subsection \<open>Readers\<close>

text \<open>
  \<open>coreunix.Cat\<close> returns a DAG reader: the size it declares (\<open>Size()\<close>, a
  \<open>uint64\<close> taken from the object's metadata) and the bytes it yields when read to
  the end. The declared size is a field of its own: nothing in the two files ties it to
  the number of bytes.
\<close>

record dag_reader =
  Size :: uint64
  dag_bytes :: bytes

datatype reader =
    DagReader dag_reader
  | BytesReader bytes
  | MultiReader "reader list"

text \<open>\<open>io.MultiReader\<close> reads its readers one after the other, each to its end.\<close>

fun read_all :: "reader \<Rightarrow> bytes" where
  "read_all (DagReader d) = dag_bytes d"
| "read_all (BytesReader bs) = bs"
| "read_all (MultiReader rs) = concat (map read_all rs)"

record progress_bar =
  Total :: int
  started :: bool

record BlockStat =
  Key :: string
  BlockSize :: int

subsection \<open>Identifiers\<close>

record multihash =
  mh_code :: uint64
  mh_digest :: bytes

record cid =
  cid_version :: uint64
  cid_codec :: uint64
  cid_hash :: multihash

record prefix =
  Version :: uint64
  Codec :: uint64
  MhType :: uint64
  MhLength :: int

text \<open>The removal outcome of the specification's data model.\<close>

datatype reason = Pinned | Not_found

datatype removal_outcome = Removed cid | Skipped cid reason

subsection \<open>The response stream\<close>

text \<open>
  What a handler can push into a response: a reader (the single payload), a reader
  wrapped by a progress bar (\<open>progressBarForReader\<close>; the wrapped reader is \<open>None\<close>
  when the value taken from the stream was not a reader), a \<open>BlockStat\<close>, or one
  removal outcome.
\<close>

datatype val =
    Reader reader
  | ProxyReader progress_bar "reader option"
  | Stat BlockStat
  | Outcome removal_outcome

text \<open>
  Modelled from the spec: the response types of go-ipfs-cmds are not under src/. A
  response as the two files use it is the emitter side (\<open>SetError\<close>, \<open>SetLength\<close>,
  \<open>Emit\<close>, \<open>Close\<close>) and the reading side (\<open>Length\<close>, \<open>Next\<close>) of one channel pair:
  the error set, the declared length, the records pushed and not yet pulled, in the order
  they were pushed, and whether the stream is closed. \<open>declared\<close> is \<open>None\<close> until
  \<open>SetLength\<close> is called; \<open>Length()\<close> is 0 then.
\<close>

record response =
  resp_error :: "error option"
  declared :: "uint64 option"
  emitted :: "val list"
  closed :: bool

text \<open>
  Modelled from the spec: \<open>cmds.NewChanResponsePair\<close> is not under src/. A response is
  constructed open, with nothing pushed.
\<close>

definition NewChanResponsePair :: response where
  "NewChanResponsePair = \<lparr>resp_error = None, declared = None, emitted = [], closed = False\<rparr>"

text \<open>
  Modelled from the spec: \<open>SetError\<close> and \<open>SetLength\<close> of the emitter are not under
  src/. They record the cause of the failure and the declared total length.
\<close>

definition SetError :: "response \<Rightarrow> error \<Rightarrow> response" where
  "SetError re err = re\<lparr>resp_error := Some err\<rparr>"

definition SetLength :: "response \<Rightarrow> uint64 \<Rightarrow> response" where
  "SetLength re l = re\<lparr>declared := Some l\<rparr>"

text \<open>
  Modelled from the spec: \<open>Emit\<close> of the emitter is not under src/. It appends one
  record; producing after \<open>Closed\<close> fails with \<open>StreamClosed\<close>.
\<close>

definition Emit :: "response \<Rightarrow> val \<Rightarrow> error option \<times> response" where
  "Emit re v = (if closed re then (Some StreamClosed, re)
                else (None, re\<lparr>emitted := emitted re @ [v]\<rparr>))"

text \<open>
  Modelled from the spec: \<open>Close\<close> of the emitter is not under src/. The stream becomes
  closed, for good.
\<close>

definition Close :: "response \<Rightarrow> response" where
  "Close re = re\<lparr>closed := True\<rparr>"

text \<open>
  Modelled from the spec: \<open>Length\<close> and \<open>Next\<close> of the response are not under src/.
  \<open>Next\<close> pulls the next record, or yields the end-of-stream marker when none is left.
\<close>

definition Length :: "response \<Rightarrow> uint64" where
  "Length res = (case declared res of None \<Rightarrow> 0 | Some l \<Rightarrow> l)"

definition Next :: "response \<Rightarrow> val option \<times> error option \<times> response" where
  "Next res = (case emitted res of
                 [] \<Rightarrow> (None, Some EOF, res)
               | v # vs \<Rightarrow> (Some v, None, res\<lparr>emitted := vs\<rparr>))"

section \<open>The node and the request\<close>

text \<open>
  The node as the commands see it: whether it is online, what setting up offline routing
  returns, the path resolver behind \<open>coreunix.Cat\<close>, the block store (\<open>n.Blocks\<close>,
  \<open>n.Blockstore\<close>) with the failure its writes may report, the pinner, and a log of the
  requests made to the block store.
\<close>

datatype store_request = GetBlock_req cid | AddBlock_req cid | DeleteBlock_req cid

record node =
  OnlineMode :: bool
  SetupOfflineRouting :: "error option"
  coreunix_Cat :: "string \<Rightarrow> error + dag_reader"
  Blocks :: "cid \<rightharpoonup> bytes"
  write_failure :: "cid \<Rightarrow> error option"
  IsPinned :: "cid \<Rightarrow> bool"
  store_log :: "store_request list"

record file_arg =
  ReadAll :: "error + bytes"
  file_Close :: "error option"

record request =
  GetNode_err :: "error option"
  Arguments :: "string list"
  NextFile :: "error + file_arg"
  opt_format :: string
  opt_mhtype :: string
  opt_mhlen :: "error + int"
  opt_force :: bool
  opt_quiet :: bool

section \<open>cat\<close>

definition progressBarMinSize :: uint64 where
  "progressBarMinSize = 1024 * 1024 * 8"

text \<open>
  The loop of \<open>cat\<close>: \<open>readers\<close> and \<open>len\<close> (the source's \<open>length\<close>) are the
  loop's two variables; the addition is the one of \<open>uint64\<close>.
\<close>

fun cat_loop :: "node \<Rightarrow> string list \<Rightarrow> reader list \<Rightarrow> uint64 \<Rightarrow> error + (reader list \<times> uint64)" where
  "cat_loop node [] readers len = Inr (readers, len)"
| "cat_loop node (fpath # paths) readers len =
     (case coreunix_Cat node fpath of
        Inl err \<Rightarrow> Inl err
      | Inr read \<Rightarrow> cat_loop node paths (readers @ [DagReader read]) (len + Size read))"

definition cat :: "node \<Rightarrow> string list \<Rightarrow> error + (reader list \<times> uint64)" where
  "cat node paths = cat_loop node paths [] 0"

text \<open>
  \<open>CatCmd.Run\<close>. The goroutine that emits the reader and closes the emitter is run to
  its end: the model gives the response once it has finished.
\<close>

definition CatCmd_Run :: "request \<Rightarrow> node \<Rightarrow> response \<Rightarrow> response" where
  "CatCmd_Run req node re =
     (case GetNode_err req of
        Some err \<Rightarrow> SetError re err
      | None \<Rightarrow>
          (case (if \<not> OnlineMode node then SetupOfflineRouting node else None) of
             Some err \<Rightarrow> SetError re err
           | None \<Rightarrow>
               (case cat node (Arguments req) of
                  Inl err \<Rightarrow> SetError re err
                | Inr (readers, len) \<Rightarrow>
                    (let re1 = SetLength re len;
                         reader = MultiReader readers;
                         re2 = snd (Emit re1 (Reader reader))
                     in Close re2))))"

text \<open>
  Modelled from the spec: \<open>progressBarForReader\<close> (commands/get.go) is not under src/.
  It makes a progress indicator sized to the declared total length and wraps the payload
  reader so that each read advances it. The result is the bar and the wrapped reader;
  the value \<open>ProxyReader bar r\<close> is that wrapped reader together with the bar it
  advances.
\<close>

definition progressBarForReader :: "reader option \<Rightarrow> int \<Rightarrow> progress_bar \<times> reader option" where
  "progressBarForReader r l = (\<lparr>Total = l, started = False\<rparr>, r)"

text \<open>
  Modelled from the spec: \<open>Start\<close> of the progress bar (package pb) is not under src/.
  The indicator is started before the first byte is delivered.
\<close>

definition bar_Start :: "progress_bar \<Rightarrow> progress_bar" where
  "bar_Start bar = bar\<lparr>started := True\<rparr>"

text \<open>
  \<open>CatCmd.PostRun[cmds.CLI]\<close>. Both error branches of the source are empty: a failed
  \<open>Next\<close> or a value that is not a reader leaves \<open>r\<close> nil. The bar is started before
  the wrapped reader is emitted, and the wrapped reader points to that bar, so the
  emitted value carries the started bar.
\<close>

definition CatCmd_PostRun_CLI :: "response \<Rightarrow> response" where
  "CatCmd_PostRun_CLI res =
     (if Length res < progressBarMinSize then res
      else
        (let re = NewChanResponsePair;
             (v, err, res1) = Next res;
             r = (case v of Some (Reader rd) \<Rightarrow> Some rd | _ \<Rightarrow> None);
             (bar, reader) = progressBarForReader r (sint (Length res));
             bar1 = bar_Start bar
         in snd (Emit re (ProxyReader bar1 reader))))"

text \<open>The progress-annotated transform was applied: the response carries a wrapped reader.\<close>

fun is_ProxyReader :: "val \<Rightarrow> bool" where
  "is_ProxyReader (ProxyReader b r) = True"
| "is_ProxyReader v = False"

definition progress_applied :: "response \<Rightarrow> bool" where
  "progress_applied res = list_ex is_ProxyReader (emitted res)"

section \<open>block\<close>

text \<open>
  What the block commands take from the packages go-cid and go-multihash, which are not
  under src/: the codec constants \<open>cid.Raw\<close>, \<open>cid.DagProtobuf\<close> and \<open>cid.DagCBOR\<close>,
  the id \<open>mh.SHA2_256\<close> of the default 256-bit hash function, the table \<open>mh.Names\<close> of
  hash-function names, the natural digest length of each hash
  function, the hash computation itself (the digest of the given length of the bytes, or
  its failure), and the decoding and printing of identifiers.
\<close>

record env =
  cid_Raw :: uint64
  cid_DagProtobuf :: uint64
  cid_DagCBOR :: uint64
  mh_SHA2_256 :: uint64
  mh_Names :: "string \<rightharpoonup> uint64"
  mh_DefaultLengths :: "uint64 \<rightharpoonup> int"
  mh_hash :: "uint64 \<Rightarrow> int \<Rightarrow> bytes \<Rightarrow> error + bytes"
  cid_Decode :: "string \<Rightarrow> error + cid"
  cid_String :: "cid \<Rightarrow> string"

record block =
  block_cid :: cid
  RawData :: bytes

subsection \<open>The block store\<close>

text \<open>
  Modelled from the spec: the block service and the block store behind \<open>n.Blocks\<close> and
  \<open>n.Blockstore\<close> are not under src/. \<open>GetBlock\<close> returns the block stored under the
  identifier, or \<open>NotFound\<close>. Each request to the store is logged.
\<close>

definition GetBlock :: "node \<Rightarrow> cid \<Rightarrow> (error + block) \<times> node" where
  "GetBlock n c =
     (let n1 = n\<lparr>store_log := store_log n @ [GetBlock_req c]\<rparr>
      in case Blocks n c of
           None \<Rightarrow> (Inl NotFound, n1)
         | Some bs \<Rightarrow> (Inr \<lparr>block_cid = c, RawData = bs\<rparr>, n1))"

text \<open>
  Modelled from the spec: \<open>AddBlock\<close> of the block service is not under src/. It
  returns the identifier and stores the block under it, or returns the store's write
  failure and stores nothing.
\<close>

definition AddBlock :: "node \<Rightarrow> block \<Rightarrow> (error + cid) \<times> node" where
  "AddBlock n b =
     (let n1 = n\<lparr>store_log := store_log n @ [AddBlock_req (block_cid b)]\<rparr>
      in case write_failure n (block_cid b) of
           Some err \<Rightarrow> (Inl err, n1)
         | None \<Rightarrow> (Inr (block_cid b), n1\<lparr>Blocks := (Blocks n1)(block_cid b \<mapsto> RawData b)\<rparr>))"

text \<open>
  Modelled from the spec: \<open>DeleteBlock\<close> of the block store is not under src/. It
  removes the block, or fails with \<open>NotFound\<close> if the store holds none under the
  identifier; it knows nothing of pins.
\<close>

definition DeleteBlock :: "node \<Rightarrow> cid \<Rightarrow> error option \<times> node" where
  "DeleteBlock n c =
     (let n1 = n\<lparr>store_log := store_log n @ [DeleteBlock_req c]\<rparr>
      in case Blocks n c of
           None \<Rightarrow> (Some NotFound, n1)
         | Some bs \<Rightarrow> (None, n1\<lparr>Blocks := (Blocks n1)(c := None)\<rparr>))"

subsection \<open>Building an identifier\<close>

text \<open>
  Modelled from the spec: the codecs an identifier may carry are raw, dag-protobuf and
  dag-cbor; the check is part of \<open>Prefix.Sum\<close> (go-cid), which is not under src/.
\<close>

definition supported_codec :: "env \<Rightarrow> uint64 \<Rightarrow> bool" where
  "supported_codec env c = (c = cid_Raw env \<or> c = cid_DagProtobuf env \<or> c = cid_DagCBOR env)"

text \<open>
  Modelled from the spec: the resolution of the hash length is part of \<open>Sum\<close>
  (go-multihash), which is not under src/. The sentinel -1 stands for the hash function's
  natural digest length; any other length is used as it is.
\<close>

definition resolve_length :: "int \<Rightarrow> int \<Rightarrow> int" where
  "resolve_length natural l = (if l = - 1 then natural else l)"

text \<open>
  Modelled from the spec: the choice of the hash function is part of \<open>Prefix.Sum\<close>
  (go-cid), which is not under src/. For version 0 the hash function is fixed to the
  default 256-bit function, whatever the prefix names; for version 1 it is the one the
  caller selected.
\<close>

definition hash_function :: "env \<Rightarrow> prefix \<Rightarrow> uint64" where
  "hash_function env p = (if Version p = 0 then mh_SHA2_256 env else MhType p)"

text \<open>
  Modelled from the spec: the assembly of the identifier is part of \<open>Prefix.Sum\<close>
  (go-cid), which is not under src/. The identifier is made of the version, the codec,
  the hash-function id and the digest; version 0 fixes the codec to dag-protobuf and the
  hash function to the default 256-bit function, and ignores what the prefix says of
  both.
\<close>

definition assemble :: "env \<Rightarrow> prefix \<Rightarrow> bytes \<Rightarrow> cid" where
  "assemble env p digest =
     \<lparr>cid_version = Version p,
      cid_codec = (if Version p = 0 then cid_DagProtobuf env else Codec p),
      cid_hash = \<lparr>mh_code = hash_function env p, mh_digest = digest\<rparr>\<rparr>"

text \<open>
  Modelled from the spec: \<open>Prefix.Sum\<close> (go-cid) and the \<open>Sum\<close> of go-multihash it
  calls are not under src/. The specification's CIDBuilder: validate the codec against
  the version, where the version is 0 or 1; validate the hash function against the
  registry; resolve the hash length; compute the digest over the input bytes; assemble
  the identifier. The hash function validated and computed with is the one the
  identifier carries. The failures are \<open>UnsupportedCodec\<close>, \<open>UnsupportedHashFunction\<close>
  and \<open>InvalidHashLength\<close>, the last being the hash computation's.
\<close>

definition Prefix_Sum :: "env \<Rightarrow> prefix \<Rightarrow> bytes \<Rightarrow> error + cid" where
  "Prefix_Sum env p data =
     (if Version p \<noteq> 0 \<and> Version p \<noteq> 1 then Inl Invalid_cid_version
      else if Version p \<noteq> 0 \<and> \<not> supported_codec env (Codec p) then Inl UnsupportedCodec
      else
        (case mh_DefaultLengths env (hash_function env p) of
           None \<Rightarrow> Inl UnsupportedHashFunction
         | Some natural \<Rightarrow>
             (case mh_hash env (hash_function env p) (resolve_length natural (MhLength p)) data of
                Inl err \<Rightarrow> Inl err
              | Inr digest \<Rightarrow> Inr (assemble env p digest))))"

text \<open>
  Modelled from the spec: \<open>blocks.NewBlockWithCid\<close> (blocks/blocks.go) is not under
  src/. A block is the immutable pair of an identifier and the raw bytes.
\<close>

definition NewBlockWithCid :: "bytes \<Rightarrow> cid \<Rightarrow> error + block" where
  "NewBlockWithCid data c = Inr \<lparr>block_cid = c, RawData = data\<rparr>"

subsection \<open>block stat, block get\<close>

definition getBlockForKey :: "env \<Rightarrow> request \<Rightarrow> node \<Rightarrow> string \<Rightarrow> (error + block) \<times> node" where
  "getBlockForKey env req n skey =
     (if length skey = 0 then (Inl Zero_length_cid_invalid, n)
      else
        (case GetNode_err req of
           Some err \<Rightarrow> (Inl err, n)
         | None \<Rightarrow>
             (case cid_Decode env skey of
                Inl err \<Rightarrow> (Inl err, n)
              | Inr c \<Rightarrow> GetBlock n c)))"

text \<open>
  The handlers read \<open>req.Arguments()[0]\<close>. The argument is declared required, so the
  list is not empty when the handler runs; on an empty list the index panics, which the
  model records as the error \<open>Index_out_of_range\<close>.
\<close>

definition blockStatCmd_Run :: "env \<Rightarrow> request \<Rightarrow> node \<times> response \<Rightarrow> node \<times> response" where
  "blockStatCmd_Run env req s =
     (case s of (n, re) \<Rightarrow>
        (case Arguments req of
           [] \<Rightarrow> (n, SetError re Index_out_of_range)
         | skey # _ \<Rightarrow>
             (case getBlockForKey env req n skey of
                (Inl err, n1) \<Rightarrow> (n1, SetError re err)
              | (Inr b, n1) \<Rightarrow>
                  (n1, snd (Emit re (Stat \<lparr>Key = cid_String env (block_cid b),
                                           BlockSize = int (length (RawData b))\<rparr>))))))"

definition blockGetCmd_Run :: "env \<Rightarrow> request \<Rightarrow> node \<times> response \<Rightarrow> node \<times> response" where
  "blockGetCmd_Run env req s =
     (case s of (n, re) \<Rightarrow>
        (case Arguments req of
           [] \<Rightarrow> (n, SetError re Index_out_of_range)
         | skey # _ \<Rightarrow>
             (case getBlockForKey env req n skey of
                (Inl err, n1) \<Rightarrow> (n1, SetError re err)
              | (Inr b, n1) \<Rightarrow> (n1, snd (Emit re (Reader (BytesReader (RawData b))))))))"

subsection \<open>block put\<close>

text \<open>
  The prefix with which no field has been set yet (\<open>var pref cid.Prefix\<close>), and the
  \<open>switch\<close> on the format, in the source's order, after \<open>pref.Version = 1\<close>.
\<close>

definition zero_prefix :: prefix where
  "zero_prefix = \<lparr>Version = 0, Codec = 0, MhType = 0, MhLength = 0\<rparr>"

definition format_switch :: "env \<Rightarrow> string \<Rightarrow> prefix \<Rightarrow> error + prefix" where
  "format_switch env format pref =
     (if format = ''cbor'' then Inr (pref\<lparr>Codec := cid_DagCBOR env\<rparr>)
      else if format = ''protobuf'' then Inr (pref\<lparr>Codec := cid_DagProtobuf env\<rparr>)
      else if format = ''raw'' then Inr (pref\<lparr>Codec := cid_Raw env\<rparr>)
      else if format = ''v0'' then Inr (pref\<lparr>Version := 0, Codec := cid_DagProtobuf env\<rparr>)
      else Inl (Unrecognized_format format))"

text \<open>
  Lines 143 to 181 of \<open>blockPutCmd.Run\<close>: the prefix from the three options, then
  \<open>pref.Sum(data)\<close>. Each failure is the error the handler sets before it returns.
\<close>

definition put_prefix :: "env \<Rightarrow> request \<Rightarrow> error + prefix" where
  "put_prefix env req =
     (case format_switch env (opt_format req) (zero_prefix\<lparr>Version := 1\<rparr>) of
        Inl err \<Rightarrow> Inl err
      | Inr pref \<Rightarrow>
          (case mh_Names env (opt_mhtype req) of
             None \<Rightarrow> Inl (Unrecognized_multihash_function (opt_mhtype req))
           | Some mhtval \<Rightarrow>
               (case opt_mhlen req of
                  Inl err \<Rightarrow> Inl err
                | Inr mhlen \<Rightarrow> Inr (pref\<lparr>MhType := mhtval, MhLength := mhlen\<rparr>))))"

definition put_cid :: "env \<Rightarrow> request \<Rightarrow> bytes \<Rightarrow> error + cid" where
  "put_cid env req data =
     (case put_prefix env req of
        Inl err \<Rightarrow> Inl err
      | Inr pref \<Rightarrow> Prefix_Sum env pref data)"

definition blockPutCmd_Run :: "env \<Rightarrow> request \<Rightarrow> node \<times> response \<Rightarrow> node \<times> response" where
  "blockPutCmd_Run env req s =
     (case s of (n, re) \<Rightarrow>
        (case GetNode_err req of
           Some err \<Rightarrow> (n, SetError re err)
         | None \<Rightarrow>
        (case NextFile req of
           Inl err \<Rightarrow> (n, SetError re err)
         | Inr file \<Rightarrow>
        (case ReadAll file of
           Inl err \<Rightarrow> (n, SetError re err)
         | Inr data \<Rightarrow>
        (case file_Close file of
           Some err \<Rightarrow> (n, SetError re err)
         | None \<Rightarrow>
        (case put_cid env req data of
           Inl err \<Rightarrow> (n, SetError re err)
         | Inr bcid \<Rightarrow>
        (case NewBlockWithCid data bcid of
           Inl err \<Rightarrow> (n, SetError re err)
         | Inr b \<Rightarrow>
        (case AddBlock n b of
           (Inl err, n1) \<Rightarrow> (n1, SetError re err)
         | (Inr k, n1) \<Rightarrow>
             (n1, snd (Emit re (Stat \<lparr>Key = cid_String env k,
                                      BlockSize = int (length data)\<rparr>)))))))))))"

subsection \<open>block rm\<close>

record RmBlocksOpts =
  Quiet :: bool
  Force :: bool

text \<open>
  Modelled from the spec: \<open>util.RmBlocks\<close> (blocks/blockstore/util) is not under src/.
  The step of the specification's RemovalPipeline for one identifier: if the pinner
  reports it pinned and force is false, the outcome is \<open>Skipped\<close> (pinned) and the store
  is not touched; if the store reports it absent and force is false, the outcome is an
  error outcome (\<open>Skipped\<close>, not found); otherwise it is deleted and the outcome is
  \<open>Removed\<close>. With force, a pinned or absent identifier counts as handled.
\<close>

definition rm_one :: "node \<Rightarrow> cid \<Rightarrow> bool \<Rightarrow> removal_outcome \<times> node" where
  "rm_one n c force =
     (if IsPinned n c \<and> \<not> force then (Skipped c Pinned, n)
      else
        (case DeleteBlock n c of
           (Some err, n1) \<Rightarrow> (if force then Removed c else Skipped c Not_found, n1)
         | (None, n1) \<Rightarrow> (Removed c, n1)))"

text \<open>
  Modelled from the spec: \<open>util.RmBlocks\<close> is not under src/. The pipeline handles each
  identifier on its own and goes on after a skipped or failed one; there is one outcome
  for each identifier, given here in request order. Quiet does not change which
  identifiers are removed.
\<close>

fun removeMany :: "node \<Rightarrow> cid list \<Rightarrow> bool \<Rightarrow> bool \<Rightarrow> removal_outcome list \<times> node" where
  "removeMany n [] force quiet = ([], n)"
| "removeMany n (c # cs) force quiet =
     (case rm_one n c force of
        (out, n1) \<Rightarrow>
          (case removeMany n1 cs force quiet of
             (outs, n2) \<Rightarrow> (out # outs, n2)))"

text \<open>
  Modelled from the spec: \<open>util.RmBlocks\<close> is not under src/. The call itself does not
  fail; its channel delivers the outcomes of the pipeline.
\<close>

definition RmBlocks :: "node \<Rightarrow> cid list \<Rightarrow> RmBlocksOpts \<Rightarrow> (error + removal_outcome list) \<times> node" where
  "RmBlocks n cids opts =
     (case removeMany n cids (Force opts) (Quiet opts) of
        (outs, n1) \<Rightarrow> (Inr outs, n1))"

text \<open>The loop of \<open>blockRmCmd.Run\<close> that decodes every argument before anything else.\<close>

fun decode_hashes :: "env \<Rightarrow> string list \<Rightarrow> cid list \<Rightarrow> error + cid list" where
  "decode_hashes env [] cids = Inr cids"
| "decode_hashes env (hash # hashes) cids =
     (case cid_Decode env hash of
        Inl err \<Rightarrow> Inl (Invalid_content_id hash err)
      | Inr c \<Rightarrow> decode_hashes env hashes (cids @ [c]))"

text \<open>
  The goroutine that forwards the channel of outcomes to the emitter, run to its end;
  a failed \<open>Emit\<close> sets the error and the loop goes on.
\<close>

fun emit_all :: "response \<Rightarrow> removal_outcome list \<Rightarrow> response" where
  "emit_all re [] = re"
| "emit_all re (v # ch) =
     (case Emit re (Outcome v) of
        (Some err, re1) \<Rightarrow> emit_all (SetError re1 err) ch
      | (None, re1) \<Rightarrow> emit_all re1 ch)"

definition blockRmCmd_Run :: "env \<Rightarrow> request \<Rightarrow> node \<times> response \<Rightarrow> node \<times> response" where
  "blockRmCmd_Run env req s =
     (case s of (n, re) \<Rightarrow>
        (case GetNode_err req of
           Some err \<Rightarrow> (n, SetError re err)
         | None \<Rightarrow>
             (let hashes = Arguments req;
                  force = opt_force req;
                  quiet = opt_quiet req
              in case decode_hashes env hashes [] of
                   Inl err \<Rightarrow> (n, SetError re err)
                 | Inr cids \<Rightarrow>
                     (case RmBlocks n cids \<lparr>Quiet = quiet, Force = force\<rparr> of
                        (Inl err, n1) \<Rightarrow> (n1, SetError re err)
                      | (Inr ch, n1) \<Rightarrow> (n1, emit_all re ch)))))"

text \<open>The identifier an outcome is about, and the outcome of a pinned identifier.\<close>

fun outcome_cid :: "removal_outcome \<Rightarrow> cid" where
  "outcome_cid (Removed c) = c"
| "outcome_cid (Skipped c r) = c"

fun is_Skipped_pinned :: "removal_outcome \<Rightarrow> bool" where
  "is_Skipped_pinned (Skipped c Pinned) = True"
| "is_Skipped_pinned out = False"

section \<open>A small node, library and request\<close>

text \<open>
  Concrete values on which the theorems below are exercised. The hash function of
  \<open>ex_env\<close> is a stand-in that pads the input with zeros and cuts it to the requested
  length; the identifiers are told apart by their digests only. \<open>ex_node_huge\<close> resolves
  one path to an object whose metadata declares the largest size a \<open>uint64\<close> holds.
  \<open>ex_req\<close> carries the default of every option.
\<close>

definition ex_cid_A :: cid where
  "ex_cid_A = \<lparr>cid_version = 0, cid_codec = 0x70, cid_hash = \<lparr>mh_code = 0x12, mh_digest = [1]\<rparr>\<rparr>"

definition ex_cid_B :: cid where
  "ex_cid_B = \<lparr>cid_version = 0, cid_codec = 0x70, cid_hash = \<lparr>mh_code = 0x12, mh_digest = [2]\<rparr>\<rparr>"

definition ex_cid_C :: cid where
  "ex_cid_C = \<lparr>cid_version = 1, cid_codec = 0x55, cid_hash = \<lparr>mh_code = 0x12, mh_digest = [3]\<rparr>\<rparr>"

definition ex_env :: env where
  "ex_env =
     \<lparr>cid_Raw = 0x55, cid_DagProtobuf = 0x70, cid_DagCBOR = 0x71,
      mh_SHA2_256 = 0x12,
      mh_Names = [''sha2-256'' \<mapsto> 0x12, ''sha2-512'' \<mapsto> 0x13],
      mh_DefaultLengths = [0x12 \<mapsto> 32, 0x13 \<mapsto> 64],
      mh_hash = (\<lambda>t l data. if 0 \<le> l then Inr (take (nat l) (data @ replicate (nat l) 0))
                             else Inl InvalidHashLength),
      cid_Decode = (\<lambda>s. if s = ''QmA'' then Inr ex_cid_A
                         else if s = ''QmB'' then Inr ex_cid_B
                         else if s = ''zbC'' then Inr ex_cid_C
                         else Inl (Collaborator ''selected encoding not supported'')),
      cid_String = (\<lambda>c. if c = ex_cid_A then ''QmA'' else if c = ex_cid_B then ''QmB''
                         else if c = ex_cid_C then ''zbC'' else ''Qm?'')\<rparr>"

definition ex_node :: node where
  "ex_node =
     \<lparr>OnlineMode = True, SetupOfflineRouting = None,
      coreunix_Cat = (\<lambda>p. if p = ''/ipfs/QmA'' then Inr \<lparr>Size = 3, dag_bytes = [1, 2, 3]\<rparr>
                           else if p = ''/ipfs/QmB'' then Inr \<lparr>Size = 2, dag_bytes = [4, 5]\<rparr>
                           else Inl (Collaborator ''no link by that name'')),
      Blocks = [ex_cid_A \<mapsto> [1, 2, 3], ex_cid_B \<mapsto> [4, 5]],
      write_failure = (\<lambda>c. None),
      IsPinned = (\<lambda>c. c = ex_cid_A),
      store_log = []\<rparr>"

definition ex_node_huge :: node where
  "ex_node_huge =
     ex_node\<lparr>coreunix_Cat :=
       (\<lambda>p. if p = ''/ipfs/QmHuge'' then Inr \<lparr>Size = 0xFFFFFFFFFFFFFFFF, dag_bytes = [6]\<rparr>
            else if p = ''/ipfs/QmB'' then Inr \<lparr>Size = 2, dag_bytes = [4, 5]\<rparr>
            else Inl (Collaborator ''no link by that name''))\<rparr>"

definition ex_req :: request where
  "ex_req =
     \<lparr>GetNode_err = None, Arguments = [],
      NextFile = Inr \<lparr>ReadAll = Inr [7, 8, 9], file_Close = None\<rparr>,
      opt_format = ''v0'', opt_mhtype = ''sha2-256'', opt_mhlen = Inr (- 1),
      opt_force = False, opt_quiet = False\<rparr>"

section \<open>Properties of cat\<close>

lemma cat_loop_resolved:
  "map (coreunix_Cat node) paths = map Inr ds \<Longrightarrow>
   cat_loop node paths readers len =
     Inr (readers @ map DagReader ds, len + sum_list (map Size ds))"
proof (induction paths arbitrary: ds readers len)
  case Nil
  then show ?case by simp
next
  case (Cons fpath paths)
  from Cons.prems obtain d ds' where ds: "ds = d # ds'"
    and d: "coreunix_Cat node fpath = Inr d"
    and rest: "map (coreunix_Cat node) paths = map Inr ds'"
    by (cases ds) auto
  show ?case
    using Cons.IH [OF rest] by (simp add: d ds add.assoc)
qed

lemma cat_loop_fails:
  "map (coreunix_Cat node) ok = map Inr ds \<Longrightarrow> coreunix_Cat node bad = Inl err \<Longrightarrow>
   cat_loop node (ok @ bad # rest) readers len = Inl err"
proof (induction ok arbitrary: ds readers len)
  case Nil
  then show ?case by simp
next
  case (Cons fpath ok)
  from Cons.prems(1) obtain d ds' where d: "coreunix_Cat node fpath = Inr d"
    and rest: "map (coreunix_Cat node) ok = map Inr ds'"
    by (cases ds) auto
  show ?case
    using Cons.IH [OF rest Cons.prems(2)] by (simp add: d)
qed

lemma read_all_DagReaders: "read_all (MultiReader (map DagReader ds)) = concat (map dag_bytes ds)"
  by (induction ds) simp_all

lemma unat_sum_list:
  fixes ws :: "uint64 list"
  shows "sum_list (map unat ws) < 2 ^ 64 \<Longrightarrow> unat (sum_list ws) = sum_list (map unat ws)"
proof (induction ws)
  case Nil
  then show ?case by simp
next
  case (Cons w ws)
  then have small: "sum_list (map unat ws) < 2 ^ 64" by simp
  have "unat (w + sum_list ws) = (unat w + unat (sum_list ws)) mod 2 ^ 64"
    by (simp add: unat_word_ariths)
  also have "\<dots> = (unat w + sum_list (map unat ws)) mod 2 ^ 64"
    by (simp add: Cons.IH [OF small])
  also have "\<dots> = unat w + sum_list (map unat ws)"
    using Cons.prems by simp
  finally show ?case by simp
qed

lemma unat_sum_list_mod:
  fixes ws :: "uint64 list"
  shows "unat (sum_list ws) = sum_list (map unat ws) mod 2 ^ 64"
proof (induction ws)
  case Nil
  then show ?case by simp
next
  case (Cons w ws)
  have "unat (w + sum_list ws) = (unat w + unat (sum_list ws)) mod 2 ^ 64"
    by (simp add: unat_word_ariths)
  also have "\<dots> = (unat w + sum_list (map unat ws) mod 2 ^ 64) mod 2 ^ 64"
    by (simp only: Cons.IH)
  also have "\<dots> = (unat w + sum_list (map unat ws)) mod 2 ^ 64"
    by (rule mod_add_right_eq)
  finally show ?case by simp
qed

lemma PostRun_progress_iff:
  "\<not> progress_applied res \<Longrightarrow>
   progress_applied (CatCmd_PostRun_CLI res) \<longleftrightarrow> progressBarMinSize \<le> Length res"
  by (auto simp: CatCmd_PostRun_CLI_def progress_applied_def Let_def Emit_def
      NewChanResponsePair_def progressBarForReader_def split: prod.splits)

text \<open>
  C6. When every requested path resolves, to readers \<open>ds\<close> in request order, \<open>Run\<close>
  declares as length the \<open>uint64\<close> sum of the sizes the readers declare, which is the
  sum of the sizes modulo \<open>2 ^ 64\<close> and so the sum itself whenever that is below
  \<open>2 ^ 64\<close>, and emits one reader whose bytes are the readers' bytes, concatenated in
  request order.
\<close>

theorem C6_cat_declares_uint64_sum_and_concatenates:
  assumes "GetNode_err req = None"
    and "OnlineMode node \<or> SetupOfflineRouting node = None"
    and "map (coreunix_Cat node) (Arguments req) = map Inr ds"
    and "\<not> closed re"
  shows "declared (CatCmd_Run req node re) = Some (sum_list (map Size ds))
       \<and> unat (Length (CatCmd_Run req node re)) = sum_list (map (\<lambda>d. unat (Size d)) ds) mod 2 ^ 64
       \<and> (sum_list (map (\<lambda>d. unat (Size d)) ds) < 2 ^ 64 \<longrightarrow>
            unat (Length (CatCmd_Run req node re)) = sum_list (map (\<lambda>d. unat (Size d)) ds))
       \<and> resp_error (CatCmd_Run req node re) = resp_error re
       \<and> emitted (CatCmd_Run req node re) = emitted re @ [Reader (MultiReader (map DagReader ds))]
       \<and> read_all (MultiReader (map DagReader ds)) = concat (map dag_bytes ds)"
proof -
  have c: "cat node (Arguments req) = Inr (map DagReader ds, sum_list (map Size ds))"
    using cat_loop_resolved [OF assms(3), of "[]" 0] by (simp add: cat_def)
  have run: "CatCmd_Run req node re =
      re\<lparr>declared := Some (sum_list (map Size ds)),
         emitted := emitted re @ [Reader (MultiReader (map DagReader ds))],
         closed := True\<rparr>"
    using assms(1,2,4)
    by (auto simp: CatCmd_Run_def c SetLength_def Emit_def Close_def Let_def)
  have "unat (sum_list (map Size ds)) = sum_list (map (\<lambda>d. unat (Size d)) ds) mod 2 ^ 64"
    using unat_sum_list_mod [of "map Size ds"] by (simp add: comp_def)
  moreover have "sum_list (map (\<lambda>d. unat (Size d)) ds) < 2 ^ 64 \<Longrightarrow>
        unat (sum_list (map Size ds)) = sum_list (map (\<lambda>d. unat (Size d)) ds)"
    using unat_sum_list [of "map Size ds"] by (simp add: comp_def)
  ultimately show ?thesis
    by (simp add: run Length_def read_all_DagReaders del: read_all.simps)
qed

text \<open>
  Two paths of declared sizes 3 and 2: the declared length is 5 and the payload is the
  five bytes in path order.
\<close>

theorem C6_cat_witness:
  "declared (CatCmd_Run (ex_req\<lparr>Arguments := [''/ipfs/QmA'', ''/ipfs/QmB'']\<rparr>) ex_node NewChanResponsePair)
     = Some 5
 \<and> unat (Length (CatCmd_Run (ex_req\<lparr>Arguments := [''/ipfs/QmA'', ''/ipfs/QmB'']\<rparr>) ex_node NewChanResponsePair))
     = 3 + 2
 \<and> emitted (CatCmd_Run (ex_req\<lparr>Arguments := [''/ipfs/QmA'', ''/ipfs/QmB'']\<rparr>) ex_node NewChanResponsePair)
     = [Reader (MultiReader [DagReader \<lparr>Size = 3, dag_bytes = [1, 2, 3]\<rparr>,
                             DagReader \<lparr>Size = 2, dag_bytes = [4, 5]\<rparr>])]
 \<and> read_all (MultiReader [DagReader \<lparr>Size = 3, dag_bytes = [1, 2, 3]\<rparr>,
                          DagReader \<lparr>Size = 2, dag_bytes = [4, 5]\<rparr>]) = [1, 2, 3, 4, 5]"
proof -
  let ?req = "ex_req\<lparr>Arguments := [''/ipfs/QmA'', ''/ipfs/QmB'']\<rparr>"
  let ?ds = "[\<lparr>Size = 3, dag_bytes = [1, 2, 3]\<rparr>, \<lparr>Size = 2, dag_bytes = [4, 5]\<rparr>]"
  have h1: "GetNode_err ?req = None" by (simp add: ex_req_def)
  have h2: "OnlineMode ex_node \<or> SetupOfflineRouting ex_node = None" by (simp add: ex_node_def)
  have h3: "map (coreunix_Cat ex_node) (Arguments ?req) = map Inr ?ds" by (simp add: ex_node_def)
  have h4: "\<not> closed NewChanResponsePair" by (simp add: NewChanResponsePair_def)
  have e: "emitted NewChanResponsePair = []" by (simp add: NewChanResponsePair_def)
  show ?thesis
    using C6_cat_declares_uint64_sum_and_concatenates [OF h1 h2 h3 h4] by (simp add: e)
qed

text \<open>
  Two paths whose objects declare the sizes \<open>2 ^ 64 - 1\<close> and 2: the sum of the sizes is
  \<open>2 ^ 64 + 1\<close>, and the length \<open>Run\<close> declares is 1.
\<close>

theorem C6_overflow_counterexample:
  "coreunix_Cat ex_node_huge ''/ipfs/QmHuge'' = Inr \<lparr>Size = 0xFFFFFFFFFFFFFFFF, dag_bytes = [6]\<rparr>
 \<and> coreunix_Cat ex_node_huge ''/ipfs/QmB'' = Inr \<lparr>Size = 2, dag_bytes = [4, 5]\<rparr>
 \<and> declared (CatCmd_Run (ex_req\<lparr>Arguments := [''/ipfs/QmHuge'', ''/ipfs/QmB'']\<rparr>)
      ex_node_huge NewChanResponsePair) = Some 1
 \<and> unat (0xFFFFFFFFFFFFFFFF :: uint64) + unat (2 :: uint64) = 18446744073709551617
 \<and> unat (Length (CatCmd_Run (ex_req\<lparr>Arguments := [''/ipfs/QmHuge'', ''/ipfs/QmB'']\<rparr>)
      ex_node_huge NewChanResponsePair)) \<noteq> unat (0xFFFFFFFFFFFFFFFF :: uint64) + unat (2 :: uint64)"
proof -
  have c: "coreunix_Cat ex_node_huge ''/ipfs/QmHuge'' = Inr \<lparr>Size = 0xFFFFFFFFFFFFFFFF, dag_bytes = [6]\<rparr>"
    "coreunix_Cat ex_node_huge ''/ipfs/QmB'' = Inr \<lparr>Size = 2, dag_bytes = [4, 5]\<rparr>"
    by (simp_all add: ex_node_huge_def)
  have n: "OnlineMode ex_node_huge" by (simp add: ex_node_huge_def ex_node_def)
  have r: "GetNode_err (ex_req\<lparr>Arguments := [''/ipfs/QmHuge'', ''/ipfs/QmB'']\<rparr>) = None"
    by (simp add: ex_req_def)
  have d: "declared (CatCmd_Run (ex_req\<lparr>Arguments := [''/ipfs/QmHuge'', ''/ipfs/QmB'']\<rparr>)
      ex_node_huge NewChanResponsePair) = Some 1"
    by (simp add: CatCmd_Run_def cat_def c n r SetLength_def Emit_def Close_def
        NewChanResponsePair_def)
  have u: "unat (0xFFFFFFFFFFFFFFFF :: uint64) + unat (2 :: uint64) = 18446744073709551617"
    by simp
  from c d u show ?thesis by (simp add: Length_def)
qed

text \<open>
  C10. When a path fails to resolve, after paths that resolved, \<open>Run\<close> only sets that
  error: it declares no length, emits nothing and does not close the stream, so no byte
  of the paths resolved before it is delivered.
\<close>

theorem C10_cat_fails_before_output:
  assumes "GetNode_err req = None"
    and "OnlineMode node \<or> SetupOfflineRouting node = None"
    and "Arguments req = ok @ bad # rest"
    and "map (coreunix_Cat node) ok = map Inr ds"
    and "coreunix_Cat node bad = Inl err"
  shows "CatCmd_Run req node re = SetError re err
       \<and> resp_error (CatCmd_Run req node re) = Some err
       \<and> declared (CatCmd_Run req node re) = declared re
       \<and> emitted (CatCmd_Run req node re) = emitted re
       \<and> closed (CatCmd_Run req node re) = closed re"
proof -
  have c: "cat node (Arguments req) = Inl err"
    using cat_loop_fails [OF assms(4,5), of rest "[]" 0] by (simp add: cat_def assms(3))
  have "CatCmd_Run req node re = SetError re err"
    using assms(1,2) by (auto simp: CatCmd_Run_def c)
  then show ?thesis by (simp add: SetError_def)
qed

text \<open>
  Three paths of which the second does not resolve: the error is that of the second
  path, no length is declared and nothing is emitted.
\<close>

theorem C10_cat_witness:
  "coreunix_Cat ex_node ''/ipfs/QmA'' = Inr \<lparr>Size = 3, dag_bytes = [1, 2, 3]\<rparr>
 \<and> coreunix_Cat ex_node ''/ipfs/QmX'' = Inl (Collaborator ''no link by that name'')
 \<and> resp_error (CatCmd_Run (ex_req\<lparr>Arguments := [''/ipfs/QmA'', ''/ipfs/QmX'', ''/ipfs/QmB'']\<rparr>)
       ex_node NewChanResponsePair) = Some (Collaborator ''no link by that name'')
 \<and> declared (CatCmd_Run (ex_req\<lparr>Arguments := [''/ipfs/QmA'', ''/ipfs/QmX'', ''/ipfs/QmB'']\<rparr>)
       ex_node NewChanResponsePair) = None
 \<and> emitted (CatCmd_Run (ex_req\<lparr>Arguments := [''/ipfs/QmA'', ''/ipfs/QmX'', ''/ipfs/QmB'']\<rparr>)
       ex_node NewChanResponsePair) = []"
proof -
  let ?req = "ex_req\<lparr>Arguments := [''/ipfs/QmA'', ''/ipfs/QmX'', ''/ipfs/QmB'']\<rparr>"
  have h1: "GetNode_err ?req = None" by (simp add: ex_req_def)
  have h2: "OnlineMode ex_node \<or> SetupOfflineRouting ex_node = None" by (simp add: ex_node_def)
  have h3: "Arguments ?req = [''/ipfs/QmA''] @ ''/ipfs/QmX'' # [''/ipfs/QmB'']" by simp
  have h4: "map (coreunix_Cat ex_node) [''/ipfs/QmA''] = map Inr [\<lparr>Size = 3, dag_bytes = [1, 2, 3]\<rparr>]"
    by (simp add: ex_node_def)
  have h5: "coreunix_Cat ex_node ''/ipfs/QmX'' = Inl (Collaborator ''no link by that name'')"
    by (simp add: ex_node_def)
  have e: "emitted NewChanResponsePair = []" "declared NewChanResponsePair = None"
    by (simp_all add: NewChanResponsePair_def)
  show ?thesis
    using C10_cat_fails_before_output [OF h1 h2 h3 h4 h5, of NewChanResponsePair] h4 h5
    by (simp add: e SetError_def)
qed

section \<open>Properties of the block commands\<close>

subsection \<open>The example values\<close>

lemma ex_cids_distinct:
  "ex_cid_A \<noteq> ex_cid_B" "ex_cid_A \<noteq> ex_cid_C" "ex_cid_B \<noteq> ex_cid_C"
  "ex_cid_B \<noteq> ex_cid_A" "ex_cid_C \<noteq> ex_cid_A" "ex_cid_C \<noteq> ex_cid_B"
  by (simp_all add: ex_cid_A_def ex_cid_B_def ex_cid_C_def)

lemma ex_decode_ABC:
  "map (cid_Decode ex_env) [''QmA'', ''QmB'', ''zbC''] = map Inr [ex_cid_A, ex_cid_B, ex_cid_C]"
  by (simp add: ex_env_def)

lemma ex_node_store:
  "IsPinned ex_node ex_cid_A" "\<not> IsPinned ex_node ex_cid_B" "\<not> IsPinned ex_node ex_cid_C"
  "Blocks ex_node ex_cid_A = Some [1, 2, 3]" "Blocks ex_node ex_cid_B = Some [4, 5]"
  "Blocks ex_node ex_cid_C = None"
  by (simp_all add: ex_node_def ex_cids_distinct)

subsection \<open>Removal\<close>

lemma rm_one_IsPinned: "IsPinned (snd (rm_one n c force)) = IsPinned n"
  by (simp add: rm_one_def DeleteBlock_def Let_def split: option.splits)

lemma rm_one_Blocks:
  "Blocks (snd (rm_one n c force)) =
     (if force \<or> \<not> IsPinned n c then (Blocks n)(c := None) else Blocks n)"
  by (auto simp: rm_one_def DeleteBlock_def Let_def split: option.splits)

lemma rm_one_outcome:
  "fst (rm_one n c force) =
     (if IsPinned n c \<and> \<not> force then Skipped c Pinned
      else if Blocks n c = None \<and> \<not> force then Skipped c Not_found
      else Removed c)"
  by (auto simp: rm_one_def DeleteBlock_def Let_def split: option.splits)

lemma removeMany_Cons:
  "removeMany n (c # cs) force quiet =
     (fst (rm_one n c force) # fst (removeMany (snd (rm_one n c force)) cs force quiet),
      snd (removeMany (snd (rm_one n c force)) cs force quiet))"
  by (simp split: prod.splits)

lemma removeMany_IsPinned: "IsPinned (snd (removeMany n cs force quiet)) = IsPinned n"
proof (induction cs arbitrary: n)
  case Nil
  then show ?case by simp
next
  case (Cons c cs)
  show ?case
    using Cons.IH [of "snd (rm_one n c force)"]
    by (simp add: removeMany_Cons rm_one_IsPinned del: removeMany.simps)
qed

lemma removeMany_Blocks:
  "Blocks (snd (removeMany n cs force quiet)) c =
     (if c \<in> set cs \<and> (force \<or> \<not> IsPinned n c) then None else Blocks n c)"
proof (induction cs arbitrary: n)
  case Nil
  then show ?case by simp
next
  case (Cons a cs)
  show ?case
    using Cons.IH [of "snd (rm_one n a force)"]
    by (simp add: removeMany_Cons rm_one_IsPinned rm_one_Blocks del: removeMany.simps)
qed

lemma removeMany_cids: "map outcome_cid (fst (removeMany n cs force quiet)) = cs"
proof (induction cs arbitrary: n)
  case Nil
  then show ?case by simp
next
  case (Cons a cs)
  show ?case
    using Cons.IH [of "snd (rm_one n a force)"]
    by (simp add: removeMany_Cons rm_one_outcome del: removeMany.simps)
qed

lemma removeMany_pinned:
  "map is_Skipped_pinned (fst (removeMany n cs False quiet)) = map (IsPinned n) cs"
proof (induction cs arbitrary: n)
  case Nil
  then show ?case by simp
next
  case (Cons a cs)
  show ?case
    using Cons.IH [of "snd (rm_one n a False)"]
    by (simp add: removeMany_Cons rm_one_outcome rm_one_IsPinned del: removeMany.simps)
qed

lemma removeMany_force: "fst (removeMany n cs True quiet) = map Removed cs"
proof (induction cs arbitrary: n)
  case Nil
  then show ?case by simp
next
  case (Cons a cs)
  show ?case
    using Cons.IH [of "snd (rm_one n a True)"]
    by (simp add: removeMany_Cons rm_one_outcome del: removeMany.simps)
qed

lemma length_filter_map_bool: "map P xs = map Q ys \<Longrightarrow> length (filter P xs) = length (filter Q ys)"
proof (induction xs arbitrary: ys)
  case Nil
  then show ?case by simp
next
  case (Cons x xs)
  then obtain y ys' where "ys = y # ys'" "P x = Q y" "map P xs = map Q ys'"
    by (cases ys) auto
  with Cons.IH [of ys'] show ?case by simp
qed

lemma decode_hashes_ok:
  "map (cid_Decode env) hashes = map Inr cs \<Longrightarrow> decode_hashes env hashes cids = Inr (cids @ cs)"
proof (induction hashes arbitrary: cs cids)
  case Nil
  then show ?case by simp
next
  case (Cons h hashes)
  from Cons.prems obtain c cs' where cs: "cs = c # cs'" and c: "cid_Decode env h = Inr c"
    and rest: "map (cid_Decode env) hashes = map Inr cs'"
    by (cases cs) auto
  show ?case using Cons.IH [OF rest] by (simp add: c cs)
qed

lemma decode_hashes_fails:
  "map (cid_Decode env) ok = map Inr cs \<Longrightarrow> cid_Decode env bad = Inl err \<Longrightarrow>
   decode_hashes env (ok @ bad # rest) cids = Inl (Invalid_content_id bad err)"
proof (induction ok arbitrary: cs cids)
  case Nil
  then show ?case by simp
next
  case (Cons h ok)
  from Cons.prems(1) obtain c cs' where c: "cid_Decode env h = Inr c"
    and rest: "map (cid_Decode env) ok = map Inr cs'"
    by (cases cs) auto
  show ?case using Cons.IH [OF rest Cons.prems(2)] by (simp add: c)
qed

lemma emit_all_open:
  "\<not> closed re \<Longrightarrow> emit_all re outs = re\<lparr>emitted := emitted re @ map Outcome outs\<rparr>"
proof (induction outs arbitrary: re)
  case Nil
  then show ?case by simp
next
  case (Cons v outs)
  have "\<not> closed (re\<lparr>emitted := emitted re @ [Outcome v]\<rparr>)" using Cons.prems by simp
  from Cons.IH [OF this] show ?case using Cons.prems by (simp add: Emit_def)
qed

lemma blockRmCmd_Run_decoded:
  assumes "GetNode_err req = None"
    and "map (cid_Decode env) (Arguments req) = map Inr cids"
    and "\<not> closed re"
  shows "blockRmCmd_Run env req (n, re) =
     (snd (removeMany n cids (opt_force req) (opt_quiet req)),
      re\<lparr>emitted := emitted re @ map Outcome (fst (removeMany n cids (opt_force req) (opt_quiet req)))\<rparr>)"
  using assms decode_hashes_ok [OF assms(2), of "[]"]
  by (simp add: blockRmCmd_Run_def RmBlocks_def emit_all_open split: prod.splits)

text \<open>
  C3. When every argument of \<open>block rm\<close> decodes, to the identifiers \<open>cids\<close>, and force
  is set, the outcomes are \<open>Removed\<close> for every identifier, in request order, the
  handler sets no error, and afterwards the store holds none of the identifiers, pinned
  or not, present before or not; the other blocks stay as they were.
\<close>
theorem C3_force_removes_all:
  assumes "GetNode_err req = None"
    and "opt_force req"
    and "map (cid_Decode env) (Arguments req) = map Inr cids"
    and "\<not> closed re"
  shows "snd (blockRmCmd_Run env req (n, re)) =
           re\<lparr>emitted := emitted re @ map (\<lambda>c. Outcome (Removed c)) cids\<rparr>
       \<and> resp_error (snd (blockRmCmd_Run env req (n, re))) = resp_error re
       \<and> (\<forall>c \<in> set cids. Blocks (fst (blockRmCmd_Run env req (n, re))) c = None)
       \<and> (\<forall>c. c \<notin> set cids \<longrightarrow> Blocks (fst (blockRmCmd_Run env req (n, re))) c = Blocks n c)"
  using assms(2)
  by (simp add: blockRmCmd_Run_decoded [OF assms(1,3,4)] removeMany_force removeMany_Blocks comp_def)

text \<open>
  A pinned block, a block that is not pinned and an identifier the store does not hold,
  removed with force: three \<open>Removed\<close> outcomes, and the pinned block is gone.
\<close>

theorem C3_force_witness:
  "IsPinned ex_node ex_cid_A \<and> Blocks ex_node ex_cid_A = Some [1, 2, 3]
 \<and> emitted (snd (blockRmCmd_Run ex_env (ex_req\<lparr>Arguments := [''QmA'', ''QmB'', ''zbC''], opt_force := True\<rparr>)
       (ex_node, NewChanResponsePair)))
     = [Outcome (Removed ex_cid_A), Outcome (Removed ex_cid_B), Outcome (Removed ex_cid_C)]
 \<and> resp_error (snd (blockRmCmd_Run ex_env (ex_req\<lparr>Arguments := [''QmA'', ''QmB'', ''zbC''], opt_force := True\<rparr>)
       (ex_node, NewChanResponsePair))) = None
 \<and> Blocks (fst (blockRmCmd_Run ex_env (ex_req\<lparr>Arguments := [''QmA'', ''QmB'', ''zbC''], opt_force := True\<rparr>)
       (ex_node, NewChanResponsePair))) ex_cid_A = None
 \<and> Blocks (fst (blockRmCmd_Run ex_env (ex_req\<lparr>Arguments := [''QmA'', ''QmB'', ''zbC''], opt_force := True\<rparr>)
       (ex_node, NewChanResponsePair))) ex_cid_B = None"
proof -
  let ?req = "ex_req\<lparr>Arguments := [''QmA'', ''QmB'', ''zbC''], opt_force := True\<rparr>"
  have h1: "GetNode_err ?req = None" by (simp add: ex_req_def)
  have h2: "opt_force ?req" by simp
  have h3: "map (cid_Decode ex_env) (Arguments ?req) = map Inr [ex_cid_A, ex_cid_B, ex_cid_C]"
    using ex_decode_ABC by simp
  have h4: "\<not> closed NewChanResponsePair" by (simp add: NewChanResponsePair_def)
  have e: "emitted NewChanResponsePair = []" "resp_error NewChanResponsePair = None"
    by (simp_all add: NewChanResponsePair_def)
  show ?thesis
    using C3_force_removes_all [OF h1 h2 h3 h4, of ex_node] ex_node_store
    by (simp add: e)
qed

text \<open>
  C4. When every argument of \<open>block rm\<close> decodes, to the identifiers \<open>cids\<close>, and force
  is not set, there is one outcome for each identifier (as many outcomes as identifiers,
  each about its identifier), the outcome of an identifier is \<open>Skipped\<close> (pinned) exactly
  when the identifier is pinned, so as many outcomes are \<open>Skipped\<close> (pinned) as there are
  pinned identifiers, every pinned block is in the store afterwards as it was before, and
  every identifier that is not pinned is gone from the store afterwards, wherever it
  stands in the request: an identifier that is skipped or not found does not stop the
  ones after it.
\<close>
theorem C4_bulk_isolation:
  assumes "GetNode_err req = None"
    and "\<not> opt_force req"
    and "map (cid_Decode env) (Arguments req) = map Inr cids"
    and "\<not> closed re"
  shows "\<exists>outs. snd (blockRmCmd_Run env req (n, re)) = re\<lparr>emitted := emitted re @ map Outcome outs\<rparr>
       \<and> length outs = length cids
       \<and> map outcome_cid outs = cids
       \<and> map is_Skipped_pinned outs = map (IsPinned n) cids
       \<and> length (filter is_Skipped_pinned outs) = length (filter (IsPinned n) cids)
       \<and> (\<forall>c. IsPinned n c \<longrightarrow> Blocks (fst (blockRmCmd_Run env req (n, re))) c = Blocks n c)
       \<and> (\<forall>c \<in> set cids. \<not> IsPinned n c \<longrightarrow> Blocks (fst (blockRmCmd_Run env req (n, re))) c = None)
       \<and> (\<forall>c. c \<notin> set cids \<longrightarrow> Blocks (fst (blockRmCmd_Run env req (n, re))) c = Blocks n c)"
proof -
  let ?outs = "fst (removeMany n cids False (opt_quiet req))"
  have cids: "map outcome_cid ?outs = cids" by (rule removeMany_cids)
  then have len: "length ?outs = length cids" by (metis length_map)
  have pin: "map is_Skipped_pinned ?outs = map (IsPinned n) cids" by (rule removeMany_pinned)
  show ?thesis
    apply (rule exI [of _ ?outs])
    using assms(2) cids len pin length_filter_map_bool [OF pin]
    by (simp add: blockRmCmd_Run_decoded [OF assms(1,3,4)] removeMany_Blocks)
qed

text \<open>
  The same three identifiers without force: three outcomes, one of them \<open>Skipped\<close>
  (pinned), the pinned block still stored, the block that is not pinned gone although
  it comes after the pinned one.
\<close>

theorem C4_isolation_witness:
  "IsPinned ex_node ex_cid_A \<and> \<not> IsPinned ex_node ex_cid_B
 \<and> (\<exists>outs. emitted (snd (blockRmCmd_Run ex_env (ex_req\<lparr>Arguments := [''QmA'', ''QmB'', ''zbC'']\<rparr>)
                (ex_node, NewChanResponsePair))) = map Outcome outs
      \<and> length outs = 3
      \<and> map outcome_cid outs = [ex_cid_A, ex_cid_B, ex_cid_C]
      \<and> map is_Skipped_pinned outs = [True, False, False]
      \<and> length (filter is_Skipped_pinned outs) = 1)
 \<and> Blocks (fst (blockRmCmd_Run ex_env (ex_req\<lparr>Arguments := [''QmA'', ''QmB'', ''zbC'']\<rparr>)
       (ex_node, NewChanResponsePair))) ex_cid_A = Some [1, 2, 3]
 \<and> Blocks (fst (blockRmCmd_Run ex_env (ex_req\<lparr>Arguments := [''QmA'', ''QmB'', ''zbC'']\<rparr>)
       (ex_node, NewChanResponsePair))) ex_cid_B = None"
proof -
  let ?req = "ex_req\<lparr>Arguments := [''QmA'', ''QmB'', ''zbC'']\<rparr>"
  have h1: "GetNode_err ?req = None" by (simp add: ex_req_def)
  have h2: "\<not> opt_force ?req" by (simp add: ex_req_def)
  have h3: "map (cid_Decode ex_env) (Arguments ?req) = map Inr [ex_cid_A, ex_cid_B, ex_cid_C]"
    using ex_decode_ABC by simp
  have h4: "\<not> closed NewChanResponsePair" by (simp add: NewChanResponsePair_def)
  have e: "emitted NewChanResponsePair = []" by (simp add: NewChanResponsePair_def)
  let ?run = "blockRmCmd_Run ex_env ?req (ex_node, NewChanResponsePair)"
  from C4_bulk_isolation [OF h1 h2 h3 h4, of ex_node] obtain outs where
    o: "snd ?run = NewChanResponsePair\<lparr>emitted := emitted NewChanResponsePair @ map Outcome outs\<rparr>
      \<and> length outs = length [ex_cid_A, ex_cid_B, ex_cid_C]
      \<and> map outcome_cid outs = [ex_cid_A, ex_cid_B, ex_cid_C]
      \<and> map is_Skipped_pinned outs = map (IsPinned ex_node) [ex_cid_A, ex_cid_B, ex_cid_C]
      \<and> length (filter is_Skipped_pinned outs) = length (filter (IsPinned ex_node) [ex_cid_A, ex_cid_B, ex_cid_C])
      \<and> (\<forall>c. IsPinned ex_node c \<longrightarrow> Blocks (fst ?run) c = Blocks ex_node c)
      \<and> (\<forall>c \<in> set [ex_cid_A, ex_cid_B, ex_cid_C]. \<not> IsPinned ex_node c \<longrightarrow> Blocks (fst ?run) c = None)
      \<and> (\<forall>c. c \<notin> set [ex_cid_A, ex_cid_B, ex_cid_C] \<longrightarrow> Blocks (fst ?run) c = Blocks ex_node c)"
    ..
  then have b: "Blocks (fst ?run) ex_cid_A = Some [1, 2, 3]" "Blocks (fst ?run) ex_cid_B = None"
    using ex_node_store by simp_all
  have ex: "\<exists>outs. emitted (snd (blockRmCmd_Run ex_env ?req (ex_node, NewChanResponsePair))) = map Outcome outs
      \<and> length outs = 3
      \<and> map outcome_cid outs = [ex_cid_A, ex_cid_B, ex_cid_C]
      \<and> map is_Skipped_pinned outs = [True, False, False]
      \<and> length (filter is_Skipped_pinned outs) = 1"
    using o ex_node_store by (intro exI [of _ outs]) (simp add: e)
  from b ex ex_node_store show ?thesis by simp
qed

text \<open>
  C9. When an argument of \<open>block rm\<close> fails to decode, after arguments that decoded,
  the handler only sets the error \<open>invalid content id\<close> for that argument: the node is
  as before (no block deleted, no request made to the store) and nothing is emitted.
\<close>
theorem C9_rm_malformed_argument:
  assumes "GetNode_err req = None"
    and "Arguments req = ok @ bad # rest"
    and "map (cid_Decode env) ok = map Inr cs"
    and "cid_Decode env bad = Inl err"
  shows "blockRmCmd_Run env req (n, re) = (n, SetError re (Invalid_content_id bad err))"
  using assms(1) decode_hashes_fails [OF assms(3,4), of rest "[]"]
  by (simp add: blockRmCmd_Run_def assms(2))

text \<open>
  A malformed second argument: the error names it, and the block named by the first
  argument is still in the store.
\<close>

theorem C9_rm_witness:
  "cid_Decode ex_env ''QmB'' = Inr ex_cid_B
 \<and> cid_Decode ex_env ''not-a-cid'' = Inl (Collaborator ''selected encoding not supported'')
 \<and> blockRmCmd_Run ex_env (ex_req\<lparr>Arguments := [''QmB'', ''not-a-cid'', ''QmA'']\<rparr>)
      (ex_node, NewChanResponsePair) =
    (ex_node, SetError NewChanResponsePair
       (Invalid_content_id ''not-a-cid'' (Collaborator ''selected encoding not supported'')))
 \<and> Blocks ex_node ex_cid_B = Some [4, 5]"
proof -
  let ?req = "ex_req\<lparr>Arguments := [''QmB'', ''not-a-cid'', ''QmA'']\<rparr>"
  have h1: "GetNode_err ?req = None" by (simp add: ex_req_def)
  have h2: "Arguments ?req = [''QmB''] @ ''not-a-cid'' # [''QmA'']" by simp
  have h3: "map (cid_Decode ex_env) [''QmB''] = map Inr [ex_cid_B]" by (simp add: ex_env_def)
  have h4: "cid_Decode ex_env ''not-a-cid'' = Inl (Collaborator ''selected encoding not supported'')"
    by (simp add: ex_env_def)
  show ?thesis
    using C9_rm_malformed_argument [OF h1 h2 h3 h4, of ex_node NewChanResponsePair] h3 h4 ex_node_store
    by simp
qed

subsection \<open>Get and stat\<close>

text \<open>
  C5. On the zero-length key, \<open>getBlockForKey\<close> returns the error
  \<open>zero length cid invalid\<close> and leaves the node as it was, the log of store requests
  included; so do \<open>block get\<close> and \<open>block stat\<close>, which set that error.
\<close>
theorem C5_empty_key_never_reaches_store:
  "getBlockForKey env req n '''' = (Inl Zero_length_cid_invalid, n)
 \<and> blockGetCmd_Run env (req\<lparr>Arguments := '''' # rest\<rparr>) (n, re) = (n, SetError re Zero_length_cid_invalid)
 \<and> blockStatCmd_Run env (req\<lparr>Arguments := '''' # rest\<rparr>) (n, re) = (n, SetError re Zero_length_cid_invalid)"
  by (simp add: getBlockForKey_def blockGetCmd_Run_def blockStatCmd_Run_def)

text \<open>
  The empty key on the example node.
\<close>

theorem C5_empty_key_witness:
  "blockGetCmd_Run ex_env (ex_req\<lparr>Arguments := ['''']\<rparr>) (ex_node, NewChanResponsePair) =
     (ex_node, SetError NewChanResponsePair Zero_length_cid_invalid)
 \<and> blockStatCmd_Run ex_env (ex_req\<lparr>Arguments := ['''']\<rparr>) (ex_node, NewChanResponsePair) =
     (ex_node, SetError NewChanResponsePair Zero_length_cid_invalid)
 \<and> store_log ex_node = []"
  using C5_empty_key_never_reaches_store [of ex_env ex_req ex_node "[]" NewChanResponsePair]
  by (simp add: ex_node_def)

subsection \<open>Put\<close>

lemma AddBlock_fst_snd:
  "AddBlock n b =
     (case write_failure n (block_cid b) of
        Some err \<Rightarrow> (Inl err, n\<lparr>store_log := store_log n @ [AddBlock_req (block_cid b)]\<rparr>)
      | None \<Rightarrow> (Inr (block_cid b),
                 n\<lparr>store_log := store_log n @ [AddBlock_req (block_cid b)],
                   Blocks := (Blocks n)(block_cid b \<mapsto> RawData b)\<rparr>))"
  by (simp add: AddBlock_def Let_def split: option.splits)

lemma format_switch_v0:
  "format_switch env ''v0'' pref = Inr (pref\<lparr>Version := 0, Codec := cid_DagProtobuf env\<rparr>)"
  by (simp add: format_switch_def)




lemma Prefix_Sum_v0:
  "Version p = 0 \<Longrightarrow> Prefix_Sum env p data = Inr c \<Longrightarrow>
   cid_version c = 0 \<and> cid_codec c = cid_DagProtobuf env \<and> mh_code (cid_hash c) = mh_SHA2_256 env"
  by (auto simp: Prefix_Sum_def assemble_def hash_function_def split: option.splits sum.splits)

lemma put_cid_v0:
  assumes "opt_format req = ''v0''" and "put_cid env req data = Inr c"
  shows "cid_version c = 0 \<and> cid_codec c = cid_DagProtobuf env
       \<and> mh_code (cid_hash c) = mh_SHA2_256 env"
proof -
  from assms obtain p where p: "put_prefix env req = Inr p" and s: "Prefix_Sum env p data = Inr c"
    by (auto simp: put_cid_def split: sum.splits)
  from p assms(1) have "Version p = 0"
    by (auto simp: put_prefix_def format_switch_v0 split: option.splits sum.splits)
  from Prefix_Sum_v0 [OF this s] show ?thesis .
qed

lemma blockPutCmd_Run_success:
  assumes "resp_error re = None"
    and "resp_error (snd (blockPutCmd_Run env req (n, re))) = None"
    and "\<not> closed re"
  shows "\<exists>file data c. GetNode_err req = None \<and> NextFile req = Inr file \<and> ReadAll file = Inr data
       \<and> file_Close file = None \<and> put_cid env req data = Inr c \<and> write_failure n c = None
       \<and> blockPutCmd_Run env req (n, re) =
           (n\<lparr>store_log := store_log n @ [AddBlock_req c], Blocks := (Blocks n)(c \<mapsto> data)\<rparr>,
            re\<lparr>emitted := emitted re @ [Stat \<lparr>Key = cid_String env c, BlockSize = int (length data)\<rparr>]\<rparr>)"
  using assms
  by (auto simp: blockPutCmd_Run_def SetError_def Emit_def NewBlockWithCid_def AddBlock_fst_snd
      split: option.splits sum.splits prod.splits)





lemma put_prefix_rejects:
  assumes "opt_format req \<notin> {''v0'', ''raw'', ''cbor'', ''protobuf''} \<or> mh_Names env (opt_mhtype req) = None"
  shows "put_prefix env req =
     Inl (if opt_format req \<notin> {''v0'', ''raw'', ''cbor'', ''protobuf''}
          then Unrecognized_format (opt_format req)
          else Unrecognized_multihash_function (opt_mhtype req))"
  using assms by (auto simp: put_prefix_def format_switch_def)

lemma put_prefix_mh_hash: "put_prefix (env\<lparr>mh_hash := h\<rparr>) req = put_prefix env req"
  by (simp add: put_prefix_def format_switch_def)

lemma ex_put_cid_sha512:
  "put_cid ex_env (ex_req\<lparr>opt_mhtype := ''sha2-512''\<rparr>) [7, 8, 9] =
     Inr \<lparr>cid_version = 0, cid_codec = 0x70,
          cid_hash = \<lparr>mh_code = 0x12, mh_digest = take 32 ([7, 8, 9] @ replicate 32 0)\<rparr>\<rparr>"
  by (simp add: put_cid_def put_prefix_def format_switch_def zero_prefix_def ex_env_def ex_req_def
      Prefix_Sum_def resolve_length_def assemble_def hash_function_def supported_codec_def)

lemma ex_put_run_sha512_ok:
  "resp_error (snd (blockPutCmd_Run ex_env (ex_req\<lparr>opt_mhtype := ''sha2-512''\<rparr>)
     (ex_node, NewChanResponsePair))) = None"
proof -
  have r: "GetNode_err (ex_req\<lparr>opt_mhtype := ''sha2-512''\<rparr>) = None"
    "NextFile (ex_req\<lparr>opt_mhtype := ''sha2-512''\<rparr>) = Inr \<lparr>ReadAll = Inr [7, 8, 9], file_Close = None\<rparr>"
    by (simp_all add: ex_req_def)
  have n: "write_failure ex_node c = None" for c
    by (simp add: ex_node_def)
  show ?thesis
    by (simp add: blockPutCmd_Run_def r ex_put_cid_sha512 NewBlockWithCid_def AddBlock_fst_snd n
        Emit_def NewChanResponsePair_def)
qed

text \<open>
  C2. Whenever \<open>block put\<close> with format \<open>v0\<close> succeeds, the identifier it stores the
  bytes under and prints has version 0, codec dag-protobuf and the default 256-bit hash
  function, whatever hash function the option \<open>mhtype\<close> names; and whenever
  \<open>Prefix.Sum\<close> returns an identifier for a prefix of version 0, the identifier has
  these three, whatever codec and hash function the prefix carries.
\<close>

theorem C2_v0_identifier:
  assumes "opt_format req = ''v0''"
    and "resp_error re = None"
    and "\<not> closed re"
    and "resp_error (snd (blockPutCmd_Run env req (n, re))) = None"
  shows "(\<exists>c data. put_cid env req data = Inr c
         \<and> emitted (snd (blockPutCmd_Run env req (n, re))) =
             emitted re @ [Stat \<lparr>Key = cid_String env c, BlockSize = int (length data)\<rparr>]
         \<and> Blocks (fst (blockPutCmd_Run env req (n, re))) c = Some data
         \<and> cid_version c = 0
         \<and> cid_codec c = cid_DagProtobuf env
         \<and> mh_code (cid_hash c) = mh_SHA2_256 env)
       \<and> (Version p = 0 \<and> Prefix_Sum env p bs = Inr c' \<longrightarrow>
            cid_version c' = 0 \<and> cid_codec c' = cid_DagProtobuf env
            \<and> mh_code (cid_hash c') = mh_SHA2_256 env)"
proof -
  from blockPutCmd_Run_success [OF assms(2,4,3)] obtain fl :: file_arg and data c where
    c: "put_cid env req data = Inr c" and
    run: "blockPutCmd_Run env req (n, re) =
           (n\<lparr>store_log := store_log n @ [AddBlock_req c], Blocks := (Blocks n)(c \<mapsto> data)\<rparr>,
            re\<lparr>emitted := emitted re @ [Stat \<lparr>Key = cid_String env c, BlockSize = int (length data)\<rparr>]\<rparr>)"
    by blast
  have "\<exists>c data. put_cid env req data = Inr c
         \<and> emitted (snd (blockPutCmd_Run env req (n, re))) =
             emitted re @ [Stat \<lparr>Key = cid_String env c, BlockSize = int (length data)\<rparr>]
         \<and> Blocks (fst (blockPutCmd_Run env req (n, re))) c = Some data
         \<and> cid_version c = 0
         \<and> cid_codec c = cid_DagProtobuf env
         \<and> mh_code (cid_hash c) = mh_SHA2_256 env"
    using put_cid_v0 [OF assms(1) c] c
    by (intro exI [of _ c] exI [of _ data]) (simp add: run)
  moreover have "Version p = 0 \<and> Prefix_Sum env p bs = Inr c' \<longrightarrow>
            cid_version c' = 0 \<and> cid_codec c' = cid_DagProtobuf env
            \<and> mh_code (cid_hash c') = mh_SHA2_256 env"
    using Prefix_Sum_v0 [of p env bs c'] by blast
  ultimately show ?thesis by blast
qed

text \<open>
  Format \<open>v0\<close> with the option \<open>mhtype\<close> set to \<open>sha2-512\<close> on the example node: the
  identifier has the hash function 0x12, the default one; and a prefix of version 0 that
  carries the codec raw and the hash function 0x13.
\<close>

theorem C2_v0_witness:
  "opt_format (ex_req\<lparr>opt_mhtype := ''sha2-512''\<rparr>) = ''v0''
 \<and> resp_error (snd (blockPutCmd_Run ex_env (ex_req\<lparr>opt_mhtype := ''sha2-512''\<rparr>)
      (ex_node, NewChanResponsePair))) = None
 \<and> (\<exists>c data. put_cid ex_env (ex_req\<lparr>opt_mhtype := ''sha2-512''\<rparr>) data = Inr c
       \<and> Blocks (fst (blockPutCmd_Run ex_env (ex_req\<lparr>opt_mhtype := ''sha2-512''\<rparr>)
            (ex_node, NewChanResponsePair))) c = Some data
       \<and> cid_version c = 0 \<and> cid_codec c = 0x70 \<and> mh_code (cid_hash c) = 0x12)
 \<and> Prefix_Sum ex_env \<lparr>Version = 0, Codec = 0x55, MhType = 0x13, MhLength = - 1\<rparr> [7, 8, 9] =
     Inr \<lparr>cid_version = 0, cid_codec = 0x70,
          cid_hash = \<lparr>mh_code = 0x12, mh_digest = take 32 ([7, 8, 9] @ replicate 32 0)\<rparr>\<rparr>
 \<and> cid_codec \<lparr>cid_version = 0, cid_codec = 0x70,
          cid_hash = \<lparr>mh_code = 0x12, mh_digest = take 32 ([7, 8, 9] @ replicate 32 0)\<rparr>\<rparr>
      = cid_DagProtobuf ex_env
 \<and> mh_code (cid_hash \<lparr>cid_version = 0, cid_codec = 0x70,
          cid_hash = \<lparr>mh_code = 0x12, mh_digest = take 32 ([7, 8, 9] @ replicate 32 0)\<rparr>\<rparr>)
      = mh_SHA2_256 ex_env"
proof -
  let ?req = "ex_req\<lparr>opt_mhtype := ''sha2-512''\<rparr>"
  let ?p = "\<lparr>Version = 0, Codec = 0x55, MhType = 0x13, MhLength = - 1\<rparr> :: prefix"
  let ?c = "\<lparr>cid_version = 0, cid_codec = 0x70,
          cid_hash = \<lparr>mh_code = 0x12, mh_digest = take 32 ([7, 8, 9] @ replicate 32 0)\<rparr>\<rparr> :: cid"
  let ?run = "blockPutCmd_Run ex_env ?req (ex_node, NewChanResponsePair)"
  have h1: "opt_format ?req = ''v0''" by (simp add: ex_req_def)
  have h2: "resp_error NewChanResponsePair = None" by (simp add: NewChanResponsePair_def)
  have h3: "\<not> closed NewChanResponsePair" by (simp add: NewChanResponsePair_def)
  note h4 = ex_put_run_sha512_ok
  have h5: "Version ?p = 0" by simp
  have h6: "Prefix_Sum ex_env ?p [7, 8, 9] = Inr ?c"
    by (simp add: Prefix_Sum_def resolve_length_def assemble_def hash_function_def ex_env_def)
  note t = C2_v0_identifier [OF h1 h2 h3 h4, where p = ?p and bs = "[7, 8, 9]" and c' = ?c]
  from t obtain c data where
    o: "put_cid ex_env ?req data = Inr c
       \<and> emitted (snd ?run) =
           emitted NewChanResponsePair @ [Stat \<lparr>Key = cid_String ex_env c, BlockSize = int (length data)\<rparr>]
       \<and> Blocks (fst ?run) c = Some data
       \<and> cid_version c = 0
       \<and> cid_codec c = cid_DagProtobuf ex_env
       \<and> mh_code (cid_hash c) = mh_SHA2_256 ex_env"
    by blast
  from t h5 h6 have q: "cid_codec ?c = cid_DagProtobuf ex_env" "mh_code (cid_hash ?c) = mh_SHA2_256 ex_env"
    by blast+
  have e: "cid_DagProtobuf ex_env = 0x70" "mh_SHA2_256 ex_env = 0x12"
    by (simp_all add: ex_env_def)
  have "\<exists>c data. put_cid ex_env ?req data = Inr c \<and> Blocks (fst ?run) c = Some data
       \<and> cid_version c = 0 \<and> cid_codec c = 0x70 \<and> mh_code (cid_hash c) = 0x12"
    using o e by (intro exI [of _ c] exI [of _ data]) simp
  with h1 h4 h6 q show ?thesis by blast
qed



text \<open>
  C8. When the format is none of \<open>v0\<close>, \<open>raw\<close>, \<open>cbor\<close>, \<open>protobuf\<close>, or the name of
  the hash function is not in \<open>mh.Names\<close>, \<open>block put\<close> fails: it sets an error, emits
  nothing, and leaves the node as it was (no block written, no request made to the
  store); what it does is the same whatever the hash computation is, so no digest is
  computed. When the node and the data were obtained, the error is
  \<open>unrecognized format\<close> for a bad format and \<open>unrecognized multihash function\<close>
  otherwise.
\<close>
theorem C8_put_rejects_unknown_names:
  assumes "opt_format req \<notin> {''v0'', ''raw'', ''cbor'', ''protobuf''}
         \<or> mh_Names env (opt_mhtype req) = None"
  shows "fst (blockPutCmd_Run env req (n, re)) = n
       \<and> resp_error (snd (blockPutCmd_Run env req (n, re))) \<noteq> None
       \<and> emitted (snd (blockPutCmd_Run env req (n, re))) = emitted re
       \<and> blockPutCmd_Run (env\<lparr>mh_hash := h\<rparr>) req (n, re) = blockPutCmd_Run env req (n, re)
       \<and> (GetNode_err req = None \<and> NextFile req = Inr fl \<and> ReadAll fl = Inr data
            \<and> file_Close fl = None \<longrightarrow>
          snd (blockPutCmd_Run env req (n, re)) =
            SetError re (if opt_format req \<notin> {''v0'', ''raw'', ''cbor'', ''protobuf''}
                         then Unrecognized_format (opt_format req)
                         else Unrecognized_multihash_function (opt_mhtype req)))"
proof -
  have c: "put_cid env req d =
     Inl (if opt_format req \<notin> {''v0'', ''raw'', ''cbor'', ''protobuf''}
          then Unrecognized_format (opt_format req)
          else Unrecognized_multihash_function (opt_mhtype req))" for d
    by (simp add: put_cid_def put_prefix_rejects [OF assms])
  have c': "put_cid (env\<lparr>mh_hash := h\<rparr>) req d = put_cid env req d" for d
    using put_prefix_rejects [OF assms] by (simp add: put_cid_def put_prefix_mh_hash)
  have 1: "fst (blockPutCmd_Run env req (n, re)) = n"
    by (simp add: blockPutCmd_Run_def c split: option.splits sum.splits)
  have 2: "resp_error (snd (blockPutCmd_Run env req (n, re))) \<noteq> None"
    by (simp add: blockPutCmd_Run_def c SetError_def split: option.splits sum.splits)
  have 3: "emitted (snd (blockPutCmd_Run env req (n, re))) = emitted re"
    by (simp add: blockPutCmd_Run_def c SetError_def split: option.splits sum.splits)
  have 4: "blockPutCmd_Run (env\<lparr>mh_hash := h\<rparr>) req (n, re) = blockPutCmd_Run env req (n, re)"
    by (simp add: blockPutCmd_Run_def c c' split: option.splits sum.splits)
  have 5: "GetNode_err req = None \<and> NextFile req = Inr fl \<and> ReadAll fl = Inr data
            \<and> file_Close fl = None \<longrightarrow>
          snd (blockPutCmd_Run env req (n, re)) =
            SetError re (if opt_format req \<notin> {''v0'', ''raw'', ''cbor'', ''protobuf''}
                         then Unrecognized_format (opt_format req)
                         else Unrecognized_multihash_function (opt_mhtype req))"
    by (simp add: blockPutCmd_Run_def c)
  from 1 2 3 4 5 show ?thesis by blast
qed

text \<open>
  The format \<open>json\<close> and the hash function \<open>md5\<close> on the example library.
\<close>

theorem C8_put_rejects_witness:
  "opt_format (ex_req\<lparr>opt_format := ''json''\<rparr>) \<notin> {''v0'', ''raw'', ''cbor'', ''protobuf''}
 \<and> blockPutCmd_Run ex_env (ex_req\<lparr>opt_format := ''json''\<rparr>) (ex_node, NewChanResponsePair) =
     (ex_node, SetError NewChanResponsePair (Unrecognized_format ''json''))
 \<and> mh_Names ex_env (opt_mhtype (ex_req\<lparr>opt_mhtype := ''md5''\<rparr>)) = None
 \<and> blockPutCmd_Run ex_env (ex_req\<lparr>opt_mhtype := ''md5''\<rparr>) (ex_node, NewChanResponsePair) =
     (ex_node, SetError NewChanResponsePair (Unrecognized_multihash_function ''md5''))"
proof -
  let ?f = "\<lparr>ReadAll = Inr [7, 8, 9], file_Close = None\<rparr> :: file_arg"
  have h1: "opt_format (ex_req\<lparr>opt_format := ''json''\<rparr>) \<notin> {''v0'', ''raw'', ''cbor'', ''protobuf''}"
    by simp
  have h2: "mh_Names ex_env (opt_mhtype (ex_req\<lparr>opt_mhtype := ''md5''\<rparr>)) = None"
    by (simp add: ex_env_def)
  have f: "opt_format (ex_req\<lparr>opt_mhtype := ''md5''\<rparr>) = ''v0''" by (simp add: ex_req_def)
  have i1: "GetNode_err (ex_req\<lparr>opt_format := ''json''\<rparr>) = None
          \<and> NextFile (ex_req\<lparr>opt_format := ''json''\<rparr>) = Inr ?f \<and> ReadAll ?f = Inr [7, 8, 9]
          \<and> file_Close ?f = None"
    by (simp add: ex_req_def)
  have i2: "GetNode_err (ex_req\<lparr>opt_mhtype := ''md5''\<rparr>) = None
          \<and> NextFile (ex_req\<lparr>opt_mhtype := ''md5''\<rparr>) = Inr ?f \<and> ReadAll ?f = Inr [7, 8, 9]
          \<and> file_Close ?f = None"
    by (simp add: ex_req_def)
  have a: "blockPutCmd_Run ex_env (ex_req\<lparr>opt_format := ''json''\<rparr>) (ex_node, NewChanResponsePair) =
          (ex_node, SetError NewChanResponsePair (Unrecognized_format ''json''))"
    using C8_put_rejects_unknown_names [OF disjI1 [OF h1], where n = ex_node
        and re = NewChanResponsePair and h = "mh_hash ex_env" and fl = ?f and data = "[7, 8, 9]"] i1 h1
    by (simp add: prod_eq_iff)
  have b: "blockPutCmd_Run ex_env (ex_req\<lparr>opt_mhtype := ''md5''\<rparr>) (ex_node, NewChanResponsePair) =
          (ex_node, SetError NewChanResponsePair (Unrecognized_multihash_function ''md5''))"
    using C8_put_rejects_unknown_names [OF disjI2 [OF h2], where n = ex_node
        and re = NewChanResponsePair and h = "mh_hash ex_env" and fl = ?f and data = "[7, 8, 9]"] i2 f
    by (simp add: prod_eq_iff)
  from h1 h2 a b show ?thesis by blast
qed

section \<open>The progress bar of cat\<close>

text \<open>
  C1. On a response whose declared length is exactly 8 MiB (8388608 bytes),
  \<open>PostRun\<close> for the CLI applies the progress bar: the comparison of the source is
  \<open>Length < progressBarMinSize\<close>, so only lengths below 8 MiB pass through unchanged,
  while the comment on \<open>progressBarMinSize\<close> says the bar is for outputs above 8 MiB.
\<close>
theorem C1_progress_at_threshold:
  "Length (res\<lparr>declared := Some 8388608\<rparr>) = 1024 * 1024 * 8
 \<and> progress_applied (CatCmd_PostRun_CLI (res\<lparr>declared := Some 8388608\<rparr>))
 \<and> emitted (CatCmd_PostRun_CLI (res\<lparr>declared := Some 8388608\<rparr>)) =
     [ProxyReader \<lparr>Total = 8388608, started = True\<rparr>
        (case emitted res of Reader rd # vs \<Rightarrow> Some rd | _ \<Rightarrow> None)]"
  by (simp add: CatCmd_PostRun_CLI_def Length_def progressBarMinSize_def Next_def
      NewChanResponsePair_def progressBarForReader_def bar_Start_def Emit_def progress_applied_def
      split: list.splits val.splits)

text \<open>
  The response of \<open>cat\<close> on one path, with the declared length set to 8 MiB.
\<close>

theorem C1_progress_at_threshold_witness:
  "declared (CatCmd_Run (ex_req\<lparr>Arguments := [''/ipfs/QmA'']\<rparr>) ex_node NewChanResponsePair) = Some 3
 \<and> emitted (CatCmd_PostRun_CLI
      (CatCmd_Run (ex_req\<lparr>Arguments := [''/ipfs/QmA'']\<rparr>) ex_node NewChanResponsePair
         \<lparr>declared := Some 8388608\<rparr>)) =
     [ProxyReader \<lparr>Total = 8388608, started = True\<rparr>
        (Some (MultiReader [DagReader \<lparr>Size = 3, dag_bytes = [1, 2, 3]\<rparr>]))]"
proof -
  have r: "CatCmd_Run (ex_req\<lparr>Arguments := [''/ipfs/QmA'']\<rparr>) ex_node NewChanResponsePair =
      \<lparr>resp_error = None, declared = Some 3,
       emitted = [Reader (MultiReader [DagReader \<lparr>Size = 3, dag_bytes = [1, 2, 3]\<rparr>])],
       closed = True\<rparr>"
    by (simp add: CatCmd_Run_def cat_def ex_req_def ex_node_def NewChanResponsePair_def
        SetLength_def Emit_def Close_def)
  show ?thesis
    using C1_progress_at_threshold
      [of "CatCmd_Run (ex_req\<lparr>Arguments := [''/ipfs/QmA'']\<rparr>) ex_node NewChanResponsePair"]
    by (simp add: r)
qed

end
